theory Spec2Isabelle
  imports Main
begin

section \<open>The auto-exit monitor of the funding arbitrage bot\<close>

text \<open>
  The three Python modules of \<^verbatim>\<open>market_data_service\<close> are embedded here:
  \<^verbatim>\<open>exchange.py\<close> (the two venue clients and \<^verbatim>\<open>Exchange\<close>),
  \<^verbatim>\<open>exit_monitor.py\<close> (\<^verbatim>\<open>ExitMonitor\<close>) and the wiring of \<^verbatim>\<open>main.py\<close>.
  Every method is a function from the world it runs in to its outcome and the world
  it leaves behind. The world records the calls the program makes to its collaborators
  (logging, the event loop's sleep, the venues, the file system) as a trace, next to
  the facts those collaborators own (clock, process environment, files, venue
  positions and funding rates).
\<close>

subsection \<open>Values, exceptions and outcomes\<close>

text \<open>
  The Python values the methods return. A method whose body ends without
  \<^verbatim>\<open>return\<close> returns \<^verbatim>\<open>None\<close>.
\<close>

datatype pyval = PyNone | PyStr string

text \<open>
  A raised exception. \<open>Exception\<close> stands for an instance of the class
  \<^verbatim>\<open>Exception\<close> or of one of its subclasses, \<open>BaseException\<close> for an instance of
  \<^verbatim>\<open>BaseException\<close> that is not an \<^verbatim>\<open>Exception\<close> (the exit signals
  \<^verbatim>\<open>KeyboardInterrupt\<close>, \<^verbatim>\<open>SystemExit\<close>, \<^verbatim>\<open>GeneratorExit\<close>,
  \<^verbatim>\<open>asyncio.CancelledError\<close>). Its argument is what \<^verbatim>\<open>str(e)\<close> does: it gives
  a text, or, in a class whose \<^verbatim>\<open>__str__\<close> fails, it raises an exception of its own.
\<close>

datatype exn = Exception message | BaseException message
and message = Text string | Unprintable exn

fun isinstance_Exception :: "exn \<Rightarrow> bool" where
  "isinstance_Exception (Exception m) = True"
| "isinstance_Exception (BaseException m) = False"

datatype 'a outcome = Return 'a | Raise exn

fun str_message :: "message \<Rightarrow> string outcome" where
  "str_message (Text msg) = Return msg"
| "str_message (Unprintable e) = Raise e"

fun str :: "exn \<Rightarrow> string outcome" where
  "str (Exception m) = str_message m"
| "str (BaseException m) = str_message m"

subsection \<open>The world\<close>

datatype venue = Binance | Bybit

datatype level = INFO | ERROR

text \<open>
  One call of the program to a collaborator: \<^verbatim>\<open>logging.info\<close> or
  \<^verbatim>\<open>logging.error\<close> with its message, \<^verbatim>\<open>asyncio.sleep\<close> with its seconds, an
  order submitted to a venue for a symbol, a query of a venue, a read or a write of
  a file.
\<close>

datatype event =
    Log level string
  | Sleep nat
  | SubmitOrder venue string
  | QueryVenue venue string
  | ReadFile string
  | WriteFile string string

text \<open>
  The world: the trace of the calls made so far, the clock in seconds, the process
  environment behind \<^verbatim>\<open>os.getenv\<close>, the files by path, and per venue and symbol
  the signed size of the open position and the funding rate (in a fixed small unit,
  so that its sign is the sign of the rate).
\<close>

record world =
  events :: "event list"
  clock :: nat
  environ :: "string \<rightharpoonup> string"
  files :: "string \<rightharpoonup> string"
  position_size :: "venue \<Rightarrow> string \<Rightarrow> int"
  funding_rate :: "venue \<Rightarrow> string \<Rightarrow> int"

type_synonym 'a action = "world \<Rightarrow> 'a outcome \<times> world"

definition logging_info :: "string \<Rightarrow> pyval action" where
  "logging_info msg w = (Return PyNone, w\<lparr>events := events w @ [Log INFO msg]\<rparr>)"

definition logging_error :: "string \<Rightarrow> pyval action" where
  "logging_error msg w = (Return PyNone, w\<lparr>events := events w @ [Log ERROR msg]\<rparr>)"

text \<open>\<^verbatim>\<open>await asyncio.sleep(n)\<close>: the call is recorded and \<open>n\<close> seconds pass.\<close>

definition asyncio_sleep :: "nat \<Rightarrow> pyval action" where
  "asyncio_sleep n w =
     (Return PyNone, w\<lparr>events := events w @ [Sleep n], clock := clock w + n\<rparr>)"

definition os_getenv :: "world \<Rightarrow> string \<Rightarrow> string option" where
  "os_getenv w name = environ w name"

subsection \<open>exchange.py\<close>

record ccxt_config =
  apiKey :: "string option"
  secret :: "string option"
  enableRateLimit :: bool
  defaultType :: string

record BinanceBybitExecutionClient =
  binance :: ccxt_config
  bybit :: ccxt_config

definition BinanceBybitExecutionClient_init :: "world \<Rightarrow> BinanceBybitExecutionClient" where
  "BinanceBybitExecutionClient_init w =
     \<lparr>binance = \<lparr>apiKey = os_getenv w ''BINANCE_API_KEY'',
                  secret = os_getenv w ''BINANCE_API_SECRET'',
                  enableRateLimit = True,
                  defaultType = ''future''\<rparr>,
      bybit = \<lparr>apiKey = os_getenv w ''BYBIT_API_KEY'',
                secret = os_getenv w ''BYBIT_API_SECRET'',
                enableRateLimit = True,
                defaultType = ''swap''\<rparr>\<rparr>"

record Exchange =
  client :: BinanceBybitExecutionClient

definition Exchange_init :: "BinanceBybitExecutionClient \<Rightarrow> Exchange" where
  "Exchange_init c = \<lparr>client = c\<rparr>"

text \<open>
  \<^verbatim>\<open>Exchange.close_hedged_position(self, symbol)\<close>: the body is the one call
  \<^verbatim>\<open>logging.info(f"Executing exit for {symbol}")\<close>; the two comments around it
  are not code.
\<close>

definition close_hedged_position :: "Exchange \<Rightarrow> string \<Rightarrow> pyval action" where
  "close_hedged_position self symbol = logging_info (''Executing exit for '' @ symbol)"

subsection \<open>exit_monitor.py\<close>

record ExitMonitor =
  exchange :: Exchange
  trades_file :: string

definition ExitMonitor_init :: "Exchange \<Rightarrow> ExitMonitor" where
  "ExitMonitor_init ex =
     \<lparr>exchange = ex, trades_file = ''apps/backend/data/active_trades.json''\<rparr>"

text \<open>
  \<^verbatim>\<open>ExitMonitor._tick(self)\<close>: the body is the one call
  \<^verbatim>\<open>logging.info("Checking trades for exit conditions...")\<close>.
\<close>

definition tick :: "ExitMonitor \<Rightarrow> pyval action" where
  "tick self = logging_info ''Checking trades for exit conditions...''"

text \<open>
  \<^verbatim>\<open>try: body  except Exception as e: handler\<close>. The clause catches the instances
  of \<^verbatim>\<open>Exception\<close>; any other raised object passes through it.
\<close>

definition try_except_Exception :: "'a action \<Rightarrow> (exn \<Rightarrow> 'a action) \<Rightarrow> 'a action" where
  "try_except_Exception body handler w =
     (case body w of
        (Return v, w1) \<Rightarrow> (Return v, w1)
      | (Raise e, w1) \<Rightarrow> if isinstance_Exception e then handler e w1 else (Raise e, w1))"

text \<open>One statement after another: the second runs when the first has not raised.\<close>

definition and_then :: "'a action \<Rightarrow> 'b action \<Rightarrow> 'b action" where
  "and_then m k w =
     (case m w of
        (Return v, w1) \<Rightarrow> k w1
      | (Raise e, w1) \<Rightarrow> (Raise e, w1))"

text \<open>
  The body of the \<^verbatim>\<open>while True\<close> loop of \<^verbatim>\<open>run_forever\<close>:
  \<^verbatim>\<open>
      try:
          await self._tick()
      except Exception as e:
          logging.error(f"Error in monitor tick: {e}")
      await asyncio.sleep(60)
  \<close>
  The tick is a parameter, as the method is looked up on \<^verbatim>\<open>self\<close>; a tick is any
  action, so it may take any time, touch any part of the world and raise anything.
  In the handler the f-string is evaluated before \<^verbatim>\<open>logging.error\<close> is called:
  when \<^verbatim>\<open>str(e)\<close> raises, nothing is logged and that exception leaves the handler,
  and the loop with it, as no \<^verbatim>\<open>try\<close> encloses the handler.
\<close>

definition cycle :: "pyval action \<Rightarrow> pyval action" where
  "cycle t =
     and_then
       (try_except_Exception t
          (\<lambda>e w1. case str e of
                     Return msg \<Rightarrow> logging_error (''Error in monitor tick: '' @ msg) w1
                   | Raise e' \<Rightarrow> (Raise e', w1)))
       (asyncio_sleep 60)"

text \<open>
  The loop itself. It has no exit of its own: it ends only when a cycle raises, and
  then with that exception. \<open>None\<close> is the loop that runs forever.
\<close>

partial_function (option) run_forever_of :: "pyval action \<Rightarrow> world \<Rightarrow> (exn \<times> world) option" where
  "run_forever_of t w =
     (case cycle t w of
        (Return v, w1) \<Rightarrow> run_forever_of t w1
      | (Raise e, w1) \<Rightarrow> Some (e, w1))"

definition run_forever :: "ExitMonitor \<Rightarrow> world \<Rightarrow> (exn \<times> world) option" where
  "run_forever self = run_forever_of (tick self)"

text \<open>The first \<open>n\<close> passes through the loop, to look at the world in between.\<close>

fun cycles :: "nat \<Rightarrow> pyval action \<Rightarrow> pyval action" where
  "cycles 0 t w = (Return PyNone, w)"
| "cycles (Suc n) t w =
     (case cycle t w of
        (Return v, w1) \<Rightarrow> cycles n t w1
      | (Raise e, w1) \<Rightarrow> (Raise e, w1))"

subsection \<open>main.py\<close>

definition main :: "world \<Rightarrow> (exn \<times> world) option" where
  "main w =
     (let execution_client = BinanceBybitExecutionClient_init w;
          exchange = Exchange_init execution_client;
          monitor = ExitMonitor_init exchange
      in run_forever monitor w)"

subsection \<open>Reading a trace\<close>

text \<open>What a run added to the trace: the events of the later world past those of the earlier.\<close>

definition emitted :: "world \<Rightarrow> world \<Rightarrow> event list" where
  "emitted w w' = drop (length (events w)) (events w')"

fun is_order :: "event \<Rightarrow> bool" where
  "is_order (SubmitOrder v s) = True"
| "is_order e = False"

fun is_sleep :: "event \<Rightarrow> bool" where
  "is_sleep (Sleep n) = True"
| "is_sleep e = False"

fun is_read :: "event \<Rightarrow> bool" where
  "is_read (ReadFile f) = True"
| "is_read e = False"


text \<open>
  An exception that the handler of the loop can log: an instance of \<^verbatim>\<open>Exception\<close>
  whose \<^verbatim>\<open>str\<close> gives a text.
\<close>

definition loggable :: "exn \<Rightarrow> bool" where
  "loggable e =
     (isinstance_Exception e \<and> (case str e of Return msg \<Rightarrow> True | Raise e' \<Rightarrow> False))"

subsection \<open>Concrete worlds\<close>

definition world0 :: world where
  "world0 =
     \<lparr>events = [], clock = 0, environ = Map.empty, files = Map.empty,
      position_size = (\<lambda>v s. 0), funding_rate = (\<lambda>v s. 0)\<rparr>"

definition exchange0 :: Exchange where
  "exchange0 = Exchange_init (BinanceBybitExecutionClient_init world0)"

definition monitor0 :: ExitMonitor where
  "monitor0 = ExitMonitor_init exchange0"

text \<open>A process started with \<^verbatim>\<open>tickIntervalSeconds=30\<close> in its environment.\<close>

definition world_interval_30 :: world where
  "world_interval_30 = world0\<lparr>environ := [''tickIntervalSeconds'' \<mapsto> ''30'']\<rparr>"



text \<open>
  A hedge on BTCUSDT opened at second 0 and still open on both venues, read at second
  600: the ten minutes of the holding window have passed.
\<close>

definition world_window_elapsed :: world where
  "world_window_elapsed =
     world0\<lparr>clock := 600,
            files := [''apps/backend/data/active_trades.json''
                        \<mapsto> ''[{symbol: BTCUSDT, opened_at: 0}]''],
            position_size := (\<lambda>v s. if s = ''BTCUSDT'' then (if v = Binance then 5 else - 5) else 0)\<rparr>"

text \<open>A tick that fails every time with an error of the ledger.\<close>

definition failing_tick :: "pyval action" where
  "failing_tick w = (Raise (Exception (Text ''cannot load ledger'')), w)"



subsection \<open>The ledger\<close>

datatype side = Long | Short

datatype position_state = OPEN | CLOSING | CLOSED | CLOSE_FAILED_PARTIAL

datatype leg_status = PENDING | CONFIRMED | FAILED

record HedgePosition =
  ident :: string
  symbol :: string
  venueA :: "venue \<times> side"
  venueB :: "venue \<times> side"
  openedAt :: nat
  entryFundingBias :: int
  state :: position_state
  legCloseStatus :: "leg_status \<times> leg_status"

text \<open>
  Modelled from the spec: the ledger (\<^verbatim>\<open>HedgeLedger\<close> with \<^verbatim>\<open>load\<close>,
  \<^verbatim>\<open>save\<close> and \<^verbatim>\<open>all\<close>) is missing from the source, which only holds the
  path of the trades file. The persisted ledger is the ordered sequence of its
  records; \<^verbatim>\<open>save\<close> is an upsert by the unique identifier that replaces the whole
  record, \<^verbatim>\<open>all\<close> gives the records in order, \<^verbatim>\<open>load\<close> gives them as a set.
\<close>

type_synonym ledger = "HedgePosition list"

definition save :: "HedgePosition \<Rightarrow> ledger \<Rightarrow> ledger" where
  "save p l =
     (if ident p \<in> set (map ident l)
      then map (\<lambda>q. if ident q = ident p then p else q) l
      else l @ [p])"

definition ledger_all :: "ledger \<Rightarrow> HedgePosition list" where
  "ledger_all l = l"

definition load :: "ledger \<Rightarrow> HedgePosition set" where
  "load l = set l"

section \<open>Properties\<close>

subsection \<open>What the methods compute\<close>

lemma close_hedged_position_eq:
  "close_hedged_position self s w =
     (Return PyNone, w\<lparr>events := events w @ [Log INFO (''Executing exit for '' @ s)]\<rparr>)"
  by (simp add: close_hedged_position_def logging_info_def)

lemma tick_eq:
  "tick self w =
     (Return PyNone, w\<lparr>events := events w @ [Log INFO ''Checking trades for exit conditions...'']\<rparr>)"
  by (simp add: tick_def logging_info_def)

lemma cycle_cases:
  "cycle t w =
    (case t w of
       (Return v, w1) \<Rightarrow>
         (Return PyNone, w1\<lparr>events := events w1 @ [Sleep 60], clock := clock w1 + 60\<rparr>)
     | (Raise e, w1) \<Rightarrow>
         if isinstance_Exception e
         then (case str e of
                 Return msg \<Rightarrow>
                   (Return PyNone,
                    w1\<lparr>events := events w1 @ [Log ERROR (''Error in monitor tick: '' @ msg), Sleep 60],
                       clock := clock w1 + 60\<rparr>)
               | Raise e' \<Rightarrow> (Raise e', w1))
         else (Raise e, w1))"
  by (simp add: cycle_def and_then_def try_except_Exception_def logging_error_def
      asyncio_sleep_def split: prod.splits outcome.splits)

text \<open>A tick that raises a loggable error: the pass logs it and sleeps.\<close>

lemma cycle_loggable:
  assumes "t w = (Raise e, w1)" and "loggable e"
  shows "\<exists>msg. str e = Return msg
    \<and> cycle t w =
        (Return PyNone,
         w1\<lparr>events := events w1 @ [Log ERROR (''Error in monitor tick: '' @ msg), Sleep 60],
            clock := clock w1 + 60\<rparr>)"
proof (cases "str e")
  case (Return msg)
  with assms show ?thesis by (simp add: cycle_cases loggable_def)
next
  case (Raise e')
  with assms show ?thesis by (simp add: loggable_def)
qed


lemma cycle_tick:
  "cycle (tick self) w =
     (Return PyNone,
      w\<lparr>events := events w @ [Log INFO ''Checking trades for exit conditions...'', Sleep 60],
        clock := clock w + 60\<rparr>)"
  by (simp add: cycle_cases tick_eq)

lemma emitted_append [simp]: "emitted w (w'\<lparr>events := events w @ es\<rparr>) = es"
  by (simp add: emitted_def)

lemma emitted_append_clock [simp]:
  "emitted w (w'\<lparr>events := events w @ es, clock := c\<rparr>) = es"
  by (simp add: emitted_def)

text \<open>
  The world after \<open>n\<close> passes of the monitor's own tick: \<open>n\<close> times the line of the
  tick and the sleep, \<open>n\<close> minutes later, nothing else touched.
\<close>

lemma cycles_tick:
  "cycles n (tick self) w =
     (Return PyNone,
      w\<lparr>events := events w
           @ concat (replicate n [Log INFO ''Checking trades for exit conditions...'', Sleep 60]),
        clock := clock w + 60 * n\<rparr>)"
proof (induction n arbitrary: w)
  case 0
  show ?case by simp
next
  case (Suc n)
  show ?case by (simp add: cycle_tick Suc)
qed

subsection \<open>The loop and its unrolling\<close>

lemma run_forever_of_Some_cycles:
  assumes "run_forever_of t w = Some r"
  shows "\<exists>n. cycles n t w = (Raise (fst r), snd r)"
proof (rule run_forever_of.raw_induct
    [where P = "\<lambda>t w r. \<exists>n. cycles n t w = (Raise (fst r), snd r)", OF _ assms])
  fix rf :: "pyval action \<Rightarrow> world \<Rightarrow> (exn \<times> world) option" and t w r
  assume IH: "\<And>t w r. rf t w = Some r \<Longrightarrow> \<exists>n. cycles n t w = (Raise (fst r), snd r)"
    and step: "(case cycle t w of (Return v, w1) \<Rightarrow> rf t w1 | (Raise e, w1) \<Rightarrow> Some (e, w1)) = Some r"
  show "\<exists>n. cycles n t w = (Raise (fst r), snd r)"
  proof (cases "cycle t w")
    case (Pair o1 w1)
    show ?thesis
    proof (cases o1)
      case (Return v)
      with Pair step have "rf t w1 = Some r" by simp
      from IH [OF this] obtain n where "cycles n t w1 = (Raise (fst r), snd r)" by blast
      with Pair Return have "cycles (Suc n) t w = (Raise (fst r), snd r)" by simp
      then show ?thesis by blast
    next
      case (Raise x)
      with Pair step have "cycles (Suc 0) t w = (Raise (fst r), snd r)" by auto
      then show ?thesis by blast
    qed
  qed
qed

lemma cycles_Raise_run_forever_of:
  "cycles n t w = (Raise e, w') \<Longrightarrow> run_forever_of t w = Some (e, w')"
proof (induction n arbitrary: w)
  case 0
  then show ?case by simp
next
  case (Suc n)
  then show ?case
    by (subst run_forever_of.simps) (auto split: prod.splits outcome.splits)
qed

text \<open>The loop ends with an exception exactly when some unrolling of it does.\<close>

lemma run_forever_of_iff_cycles:
  "run_forever_of t w = Some (e, w') \<longleftrightarrow> (\<exists>n. cycles n t w = (Raise e, w'))"
  using run_forever_of_Some_cycles [of t w "(e, w')"] cycles_Raise_run_forever_of [of _ t w e w']
  by auto

lemma cycles_complete:
  assumes "\<forall>w e. fst (t w) = Raise e \<longrightarrow> loggable e"
  shows "fst (cycles n t w) = Return PyNone"
proof (induction n arbitrary: w)
  case 0
  show ?case by simp
next
  case (Suc n)
  obtain r w1 where tw: "t w = (r, w1)" by (cases "t w")
  show ?case
  proof (cases r)
    case (Return v)
    with tw Suc show ?thesis by (simp add: cycle_cases)
  next
    case (Raise e)
    with tw assms have "loggable e" by (metis fst_conv)
    with tw Raise obtain w2 where "cycle t w = (Return PyNone, w2)"
      using cycle_loggable [of t w e w1] by auto
    with Suc show ?thesis by simp
  qed
qed


lemma run_forever_of_diverges:
  assumes "\<forall>w e. fst (t w) = Raise e \<longrightarrow> loggable e"
  shows "run_forever_of t w = None"
proof (rule ccontr)
  assume "run_forever_of t w \<noteq> None"
  then obtain e w' where "run_forever_of t w = Some (e, w')" by auto
  then obtain n where "cycles n t w = (Raise e, w')"
    by (auto simp: run_forever_of_iff_cycles)
  moreover have "fst (cycles n t w) = Return PyNone"
    using assms by (rule cycles_complete)
  ultimately show False by simp
qed

text \<open>
  The clause \<^verbatim>\<open>except Exception\<close> lets every other exception through: the pass
  ends with it, nothing logged and no sleep.
\<close>

lemma exit_signal_passes_through:
  "t w = (Raise e, w1) \<Longrightarrow> \<not> isinstance_Exception e \<Longrightarrow> cycle t w = (Raise e, w1)"
  by (simp add: cycle_cases)

text \<open>The monitor that \<^verbatim>\<open>main\<close> builds never returns.\<close>

lemma run_forever_never_returns: "run_forever self w = None"
  unfolding run_forever_def
  by (rule run_forever_of_diverges) (simp add: tick_eq)

lemma main_never_returns: "main w = None"
  by (simp add: main_def run_forever_never_returns)


lemma filter_sleep_cycles:
  "filter is_sleep (concat (replicate n [Log l m, Sleep k])) = replicate n (Sleep k)"
  by (induction n) simp_all

lemma set_concat_replicate:
  "set (concat (replicate n xs)) = (if n = 0 then {} else set xs)"
  by (induction n) auto

subsection \<open>The unwind: \<^verbatim>\<open>Exchange.close_hedged_position\<close>\<close>


text \<open>
  C9. For every symbol, \<^verbatim>\<open>Exchange.close_hedged_position\<close> returns \<^verbatim>\<open>None\<close>, the
  only call it makes is one \<^verbatim>\<open>logging.info\<close> (so no order reaches either venue),
  and the files (the ledger among them), the venue positions and everything else in
  the world stay as they were.
\<close>

theorem close_hedged_position_only_logs:
  "fst (close_hedged_position self s w) = Return PyNone
   \<and> emitted w (snd (close_hedged_position self s w))
       = [Log INFO (''Executing exit for '' @ s)]
   \<and> filter is_order (emitted w (snd (close_hedged_position self s w))) = []
   \<and> files (snd (close_hedged_position self s w)) = files w
   \<and> position_size (snd (close_hedged_position self s w)) = position_size w
   \<and> snd (close_hedged_position self s w)
       = w\<lparr>events := events (snd (close_hedged_position self s w))\<rparr>"
  by (simp add: close_hedged_position_eq)

subsection \<open>The tick: \<^verbatim>\<open>ExitMonitor._tick\<close>\<close>

text \<open>
  C4 at the boundary of the holding window. In \<open>world_window_elapsed\<close> a hedge opened
  at second 0 is looked at in second 600. The tick returns \<^verbatim>\<open>None\<close>, not a time
  exit, adds its one log line and starts no unwind.
\<close>

theorem tick_at_elapsed_window:
  "tick monitor0 world_window_elapsed =
     (Return PyNone,
      world_window_elapsed\<lparr>events := [Log INFO ''Checking trades for exit conditions...'']\<rparr>)
   \<and> clock world_window_elapsed = 600
   \<and> fst (tick monitor0 world_window_elapsed) \<noteq> Return (PyStr ''TIME_EXIT'')
   \<and> Log INFO ''Executing exit for BTCUSDT''
       \<notin> set (events (snd (tick monitor0 world_window_elapsed)))"
  by (simp add: tick_eq world_window_elapsed_def world0_def)


subsection \<open>The loop: \<^verbatim>\<open>ExitMonitor.run_forever\<close>\<close>




text \<open>
  C7, as stated, fails. The process of \<open>world_interval_30\<close> was started with
  \<^verbatim>\<open>tickIntervalSeconds=30\<close>; the one sleep of a pass through the loop is of 60
  seconds all the same.
\<close>

theorem sleep_ignores_configured_interval:
  "os_getenv world_interval_30 ''tickIntervalSeconds'' = Some ''30''
   \<and> filter is_sleep
       (emitted world_interval_30 (snd (cycle (tick monitor0) world_interval_30)))
       = [Sleep 60]
   \<and> Sleep 30
       \<notin> set (emitted world_interval_30 (snd (cycle (tick monitor0) world_interval_30)))"
  by (simp add: cycle_tick os_getenv_def world_interval_30_def world0_def emitted_def)

text \<open>
  C7, amended. Between two ticks the loop sleeps 60 seconds, a constant of the code
  that no configuration changes, with a fixed delay: in every pass that completes,
  whatever the tick did and however long it took, the one sleep that follows it is
  \<^verbatim>\<open>asyncio.sleep(60)\<close> and ends 60 seconds after the tick did; the first \<open>n\<close>
  passes of the monitor's own tick sleep \<open>n\<close> times 60 seconds, in every world.
\<close>

theorem sleep_is_constant_60:
  assumes "fst (cycle t w) = Return PyNone"
  shows "filter is_sleep (emitted (snd (t w)) (snd (cycle t w))) = [Sleep 60]
    \<and> clock (snd (cycle t w)) = clock (snd (t w)) + 60
    \<and> filter is_sleep (emitted w (snd (cycles n (tick self) w))) = replicate n (Sleep 60)"
proof -
  obtain r w1 where tw: "t w = (r, w1)" by (cases "t w")
  have "filter is_sleep (emitted w1 (snd (cycle t w))) = [Sleep 60]
      \<and> clock (snd (cycle t w)) = clock w1 + 60"
  proof (cases r)
    case (Return v)
    with tw show ?thesis by (simp add: cycle_cases)
  next
    case (Raise e)
    with tw assms obtain msg where "isinstance_Exception e" and "str e = Return msg"
      by (cases "isinstance_Exception e"; cases "str e") (simp_all add: cycle_cases)
    with tw Raise show ?thesis by (simp add: cycle_cases)
  qed
  moreover have "filter is_sleep (emitted w (snd (cycles n (tick self) w))) = replicate n (Sleep 60)"
    by (simp add: cycles_tick filter_sleep_cycles)
  ultimately show ?thesis using tw by simp
qed

theorem sleep_is_constant_60_witness:
  "fst (cycle failing_tick world_interval_30) = Return PyNone
   \<and> filter is_sleep
       (emitted (snd (failing_tick world_interval_30))
          (snd (cycle failing_tick world_interval_30))) = [Sleep 60]
   \<and> clock (snd (cycle failing_tick world_interval_30))
       = clock (snd (failing_tick world_interval_30)) + 60
   \<and> filter is_sleep
       (emitted world_interval_30 (snd (cycles 2 (tick monitor0) world_interval_30)))
       = [Sleep 60, Sleep 60]"
proof -
  have h: "fst (cycle failing_tick world_interval_30) = Return PyNone"
    by (simp add: cycle_cases failing_tick_def)
  from sleep_is_constant_60 [OF h, of 2 monitor0] h
  show ?thesis by (simp add: numeral_2_eq_2)
qed

text \<open>
  C10. In every pass of the monitor loop the tick reads no file, the trades file
  among them, and does not call \<^verbatim>\<open>Exchange.close_hedged_position\<close>, whatever the
  clock and the funding rates are. After \<open>n\<close> passes, from any world, the trace has
  grown by \<open>n\<close> times the line of the tick and the sleep and by nothing else: no
  read, no order, no line \<^verbatim>\<open>Executing exit for ...\<close>, which every call of
  \<^verbatim>\<open>close_hedged_position\<close> would have logged; files and venue positions are as
  they were.
\<close>

theorem monitor_loop_decides_no_exit:
  "fst (cycles n (tick self) w) = Return PyNone
   \<and> emitted w (snd (cycles n (tick self) w))
       = concat (replicate n [Log INFO ''Checking trades for exit conditions...'', Sleep 60])
   \<and> filter is_read (emitted w (snd (cycles n (tick self) w))) = []
   \<and> filter is_order (emitted w (snd (cycles n (tick self) w))) = []
   \<and> Log INFO (''Executing exit for '' @ s) \<notin> set (emitted w (snd (cycles n (tick self) w)))
   \<and> files (snd (cycles n (tick self) w)) = files w
   \<and> position_size (snd (cycles n (tick self) w)) = position_size w"
  by (simp add: cycles_tick set_concat_replicate filter_concat)

subsection \<open>The ledger\<close>

text \<open>A save leaves the records of every other identifier as they were.\<close>

lemma save_keeps_others:
  "ident q \<noteq> ident p \<Longrightarrow> q \<in> load (save p l) \<longleftrightarrow> q \<in> load l"
  by (auto simp: load_def save_def)

text \<open>
  C8. Round trip of the ledger: after \<^verbatim>\<open>save(position)\<close>, \<^verbatim>\<open>load()\<close> holds the
  saved record, and it is the only record there under that identifier, so the record
  read back equals the saved one in every field.
\<close>

theorem ledger_round_trip:
  "p \<in> load (save p l) \<and> {q \<in> load (save p l). ident q = ident p} = {p}"
proof (cases "ident p \<in> set (map ident l)")
  case True
  then obtain q where q: "q \<in> set l" "ident q = ident p" by auto
  have "p \<in> (\<lambda>q. if ident q = ident p then p else q) ` set l"
    by (rule image_eqI [where x = q]) (simp_all add: q)
  with True show ?thesis by (auto simp: load_def save_def)
next
  case False
  then have "\<forall>q \<in> set l. ident q \<noteq> ident p" by (force simp: image_iff)
  with False show ?thesis by (auto simp: load_def save_def)
qed


end
